theory Spec2Isabelle
  imports Complex_Main
begin

section \<open>Terms and formulas built by the script\<close>

text \<open>
  The script works over one uninterpreted sort \<open>U\<close>. A term of that sort is a constant
  (\<open>Const('e', U)\<close>, and the variables \<open>x y z w\<close>, which the script declares with
  \<open>Consts\<close>) or the application of one of the declared binary function symbols.
  Identity of terms is structural.
\<close>

datatype expr = Const string | App string expr expr

datatype formula =
    Eq expr expr
  | ForAll "expr list" formula
  | Implies formula formula
  | And formula formula
  | Not formula

text \<open>Exceptions of the Python run time that the modelled code raises or handles.
  \<open>KeyboardInterrupt\<close> stands for the exceptions that do not derive from
  \<open>Exception\<close>.\<close>

datatype exn =
    ValueError string
  | AttributeError
  | RecursionError
  | OverflowError
  | Z3Exception string
  | KeyboardInterrupt

fun is_Exception :: "exn \<Rightarrow> bool" where
  "is_Exception KeyboardInterrupt = False"
| "is_Exception _ = True"

subsection \<open>Declarations (lines 93-103)\<close>

definition f :: "expr \<Rightarrow> expr \<Rightarrow> expr" where
  "f a b = App ''f'' a b"

definition m :: "expr \<Rightarrow> expr \<Rightarrow> expr" where
  "m a b = App ''m'' a b"

definition p :: "expr \<Rightarrow> expr \<Rightarrow> expr" where
  "p a b = App ''p'' a b"

definition e :: expr where
  "e = Const ''e''"

definition x :: expr where
  "x = Const ''x''"

definition y :: expr where
  "y = Const ''y''"

definition z :: expr where
  "z = Const ''z''"

definition w :: expr where
  "w = Const ''w''"

subsection \<open>Derived operators (lines 106-115)\<close>

definition t :: "expr \<Rightarrow> expr \<Rightarrow> expr" where
  "t a b = f (f a b) b"

definition v :: "expr \<Rightarrow> expr \<Rightarrow> expr" where
  "v a b = t (t a b) a"

subsection \<open>Left-associative application (lines 122-141)\<close>

text \<open>
  \<open>def P(*args)\<close> receives its operands as a tuple, here a list. An empty tuple raises
  \<open>ValueError\<close>; otherwise \<open>res\<close> starts as \<open>args[0]\<close> and the loop over
  \<open>args[1:]\<close> replaces it by \<open>p(res, arg)\<close>. The loop is \<open>foldl\<close> with \<open>res\<close>
  as the accumulator.
\<close>

definition P :: "expr list \<Rightarrow> exn + expr" where
  "P args =
     (if args = [] then Inl (ValueError ''Function P requires at least one argument.'')
      else Inr (foldl (\<lambda>res arg. p res arg) (hd args) (tl args)))"

definition M :: "expr list \<Rightarrow> exn + expr" where
  "M args =
     (if args = [] then Inl (ValueError ''Function M requires at least one argument.'')
      else Inr (foldl (\<lambda>res arg. m res arg) (hd args) (tl args)))"

definition F :: "expr list \<Rightarrow> exn + expr" where
  "F args =
     (if args = [] then Inl (ValueError ''Function F requires at least one argument.'')
      else Inr (foldl (\<lambda>res arg. f res arg) (hd args) (tl args)))"

subsection \<open>The shape the specification describes\<close>

text \<open>
  Written from the specification's words, not from the code: the term
  \<open>op(op(...op(o1,o2)...,o_{N-1}),o_N)\<close> has the last operand \<open>o_N\<close> as the right
  argument of its outermost application, and the same shape over \<open>o1 ... o_{N-1}\<close>
  as the left argument. \<open>left_nested_rev\<close> takes the operands last first.
\<close>

fun left_nested_rev :: "string \<Rightarrow> expr list \<Rightarrow> expr" where
  "left_nested_rev opname [] = Const []"
| "left_nested_rev opname [o1] = o1"
| "left_nested_rev opname (oN # before) = App opname (left_nested_rev opname before) oN"

definition left_nested :: "string \<Rightarrow> expr list \<Rightarrow> expr" where
  "left_nested opname operands = left_nested_rev opname (rev operands)"

text \<open>The number of operator applications anywhere in a term.\<close>

fun applications :: "expr \<Rightarrow> nat" where
  "applications (Const c) = 0"
| "applications (App opname a b) = Suc (applications a + applications b)"

section \<open>Floats\<close>

text \<open>
  A finite float of the run time (an IEEE 754 double) is given by the rational number
  it denotes. \<open>nearest_double\<close> rounds a rational to the nearest number with a
  significand of 53 bits, ties to the even significand, which is the result of a float
  operation on operands whose exact result is that rational; the exponent range is
  left out here and checked where a result can leave it.
\<close>

fun bit_length :: "nat \<Rightarrow> nat" where
  "bit_length n = (if n = 0 then 0 else Suc (bit_length (n div 2)))"

declare bit_length.simps [simp del]

definition floor_log2 :: "rat \<Rightarrow> int" where
  "floor_log2 q =
     (let (a, b) = quotient_of q;
          k = int (bit_length (nat a)) - int (bit_length (nat b))
      in if 2 powi k \<le> q then k else k - 1)"

definition round_half_even :: "rat \<Rightarrow> int" where
  "round_half_even q =
     (let n = \<lfloor>q\<rfloor>; r = q - of_int n
      in if r < 1 / 2 then n else if 1 / 2 < r then n + 1 else if even n then n else n + 1)"

definition nearest_double :: "rat \<Rightarrow> rat" where
  "nearest_double q =
     (if q = 0 then 0
      else let ex = floor_log2 \<bar>q\<bar> - 52;
               mant = round_half_even (\<bar>q\<bar> / 2 powi ex)
           in sgn q * of_int mant * 2 powi ex)"

text \<open>
  An \<open>int\<close> that meets a float in a division is converted to a float first. The
  conversion rounds to the nearest double and raises \<open>OverflowError\<close> when that
  rounding leaves the range of the doubles, which it does from \<open>2^1024 - 2^970\<close> on
  in absolute value.
\<close>

definition fits_float :: "int \<Rightarrow> bool" where
  "fits_float n = (\<bar>n\<bar> < 2 ^ 1024 - 2 ^ 970)"

definition float_of_int :: "int \<Rightarrow> exn + rat" where
  "float_of_int n = (if fits_float n then Inr (nearest_double (of_int n)) else Inl OverflowError)"

text \<open>Division and subtraction of floats, for operands whose result stays in the
  range of the normal doubles.\<close>

definition float_div :: "rat \<Rightarrow> rat \<Rightarrow> rat" where
  "float_div a b = nearest_double (a / b)"

definition float_sub :: "rat \<Rightarrow> rat \<Rightarrow> rat" where
  "float_sub a b = nearest_double (a - b)"

section \<open>The entailment checker (lines 19-87)\<close>

subsection \<open>The solver library as the script uses it\<close>

text \<open>
  \<open>s.check()\<close> answers with one of the three values \<open>sat\<close>, \<open>unsat\<close> and
  \<open>unknown\<close> of the solver library.
\<close>

datatype check_sat_result = unsat | sat | unknown

text \<open>
  A solver session holds the parameters set on it and the formulas asserted in it, in
  the order of the calls. \<open>Solver()\<close> makes an empty one, \<open>s.set(key, value)\<close>
  records a parameter, \<open>s.add\<close> with a list asserts its elements one by one, and
  \<open>s.add\<close> with one formula asserts it.
\<close>

record solver =
  params :: "(string \<times> int) list"
  assertions :: "formula list"

definition Solver :: solver where
  "Solver = \<lparr>params = [], assertions = []\<rparr>"

definition solver_set :: "string \<Rightarrow> int \<Rightarrow> solver \<Rightarrow> solver" where
  "solver_set key val s = s\<lparr>params := params s @ [(key, val)]\<rparr>"

definition solver_add_list :: "formula list \<Rightarrow> solver \<Rightarrow> solver" where
  "solver_add_list fs s = s\<lparr>assertions := assertions s @ fs\<rparr>"

definition solver_add :: "formula \<Rightarrow> solver \<Rightarrow> solver" where
  "solver_add fm s = s\<lparr>assertions := assertions s @ [fm]\<rparr>"

text \<open>
  What lies outside the script: the decision procedure, which answers for a session
  (a deterministic oracle: its answer is a function of the session it is asked about),
  the two ways of turning a formula into text, each of which may raise, and the wall
  clock, given by the reading of the \<open>k\<close>-th call of \<open>time.time()\<close>, a float.
\<close>

record world =
  decide :: "solver \<Rightarrow> check_sat_result"
  str_of :: "formula \<Rightarrow> exn + string"
  sexpr_of :: "formula \<Rightarrow> exn + string"
  time_at :: "nat \<Rightarrow> rat"

subsection \<open>Effects\<close>

text \<open>
  One \<open>print\<close> call writes one entry of the console: the pieces of its f-string.
  \<open>Str_int\<close> is the text of an integer, \<open>Repr_float\<close> the text of a float and
  \<open>Fixed3\<close> a float under the format \<open>.3f\<close>; how the run time renders them is not
  modelled.
\<close>

datatype piece = Txt string | Str_int int | Repr_float rat | Fixed3 rat

type_synonym printed = "piece list"

text \<open>The calls into the solver library that open a session or ask for a decision;
  \<open>Solver_check\<close> carries the session as it is at that call.\<close>

datatype z3_call = Solver_new | Solver_check solver

record effects =
  console :: "printed list"
  z3_calls :: "z3_call list"
  clock_reads :: nat

definition no_effects :: effects where
  "no_effects = \<lparr>console = [], z3_calls = [], clock_reads = 0\<rparr>"

definition print :: "printed \<Rightarrow> effects \<Rightarrow> effects" where
  "print entry eff = eff\<lparr>console := console eff @ [entry]\<rparr>"

definition call_z3 :: "z3_call \<Rightarrow> effects \<Rightarrow> effects" where
  "call_z3 c eff = eff\<lparr>z3_calls := z3_calls eff @ [c]\<rparr>"

definition read_clock :: "world \<Rightarrow> effects \<Rightarrow> rat \<times> effects" where
  "read_clock W eff = (time_at W (clock_reads eff), eff\<lparr>clock_reads := Suc (clock_reads eff)\<rparr>)"

definition dashes :: "nat \<Rightarrow> printed" where
  "dashes n = [Txt (replicate n CHR ''-'')]"

subsection \<open>Printing the conclusion (lines 46-54)\<close>

text \<open>
  The f-string \<open>f"  {concl}"\<close> is evaluated inside \<open>try\<close>. An exception that derives
  from \<open>Exception\<close> is handled by trying \<open>concl.sexpr()\<close>; of the exceptions raised
  there only \<open>AttributeError\<close> is handled, by printing a fixed text. Every other
  exception leaves \<open>check\<close>.
\<close>

definition print_conclusion :: "world \<Rightarrow> formula \<Rightarrow> effects \<Rightarrow> (exn \<times> effects) + effects" where
  "print_conclusion W concl eff =
     (case str_of W concl of
        Inr s \<Rightarrow> Inr (print [Txt (''  '' @ s)] eff)
      | Inl ex \<Rightarrow>
          if is_Exception ex then
            (case sexpr_of W concl of
               Inr s \<Rightarrow> Inr (print [Txt (''  '' @ s)] eff)
             | Inl ex' \<Rightarrow>
                 if ex' = AttributeError
                 then Inr (print [Txt ''  [Could not format conclusion]''] eff)
                 else Inl (ex', eff))
          else Inl (ex, eff))"

subsection \<open>One iteration of the loop (lines 40-82)\<close>

definition check_step ::
  "world \<Rightarrow> formula list \<Rightarrow> int \<Rightarrow> nat \<Rightarrow> nat \<Rightarrow> formula \<Rightarrow> string list \<times> effects
     \<Rightarrow> (exn \<times> effects) + (string list \<times> effects)" where
  "check_step W assumptions timeout_ms n_conclusions i concl st =
     (let (results, eff0) = st;
          s = Solver;
          eff1 = call_z3 Solver_new eff0;
          s = solver_set ''timeout'' timeout_ms s;
          s = solver_add_list assumptions s;
          s = solver_add (Not concl) s;
          eff2 = print [Txt (CHR 0x0A # ''[Check ''), Str_int (int i + 1), Txt ''/'',
                        Str_int (int n_conclusions), Txt ''] Checking Conclusion:''] eff1
      in case print_conclusion W concl eff2 of
           Inl err \<Rightarrow> Inl err
         | Inr eff3 \<Rightarrow>
            (let (start_time, eff4) = read_clock W eff3;
                 result = decide W s;
                 eff5 = call_z3 (Solver_check s) eff4;
                 (end_time, eff6) = read_clock W eff5;
                 duration = float_sub end_time start_time;
                 status_str = [Txt ''('', Fixed3 duration, Txt ''s)''];
                 (eff7, results') =
                   (if result = unsat then
                      (print ([Txt ''  Result: HOLDS (Assumptions entail Conclusion) ''] @ status_str) eff6,
                       results @ [''holds''])
                    else if result = sat then
                      (print ([Txt ''  Result: DOESN'T HOLD (Found countermodel/scenario) ''] @ status_str) eff6,
                       results @ [''doesn't hold''])
                    else
                      (print ([Txt ''  Result: UNKNOWN (Timeout or resource limit?) ''] @ status_str) eff6,
                       results @ [''unknown'']))
             in Inr (results', print (dashes 25) eff7)))"

subsection \<open>The loop and the whole function\<close>

text \<open>\<open>for i, concl in enumerate(conclusions)\<close>: the loop runs over the pairs of an
  index and a conclusion; an exception ends it.\<close>

fun check_loop ::
  "world \<Rightarrow> formula list \<Rightarrow> int \<Rightarrow> nat \<Rightarrow> (nat \<times> formula) list \<Rightarrow> string list \<times> effects
     \<Rightarrow> (exn \<times> effects) + (string list \<times> effects)" where
  "check_loop W assumptions timeout_ms n [] st = Inr st"
| "check_loop W assumptions timeout_ms n ((i, concl) # rest) st =
     (case check_step W assumptions timeout_ms n i concl st of
        Inl err \<Rightarrow> Inl err
      | Inr st' \<Rightarrow> check_loop W assumptions timeout_ms n rest st')"

text \<open>
  \<open>check(assumptions, conclusions, timeout_ms=1000)\<close>: a call without the third argument
  is \<open>None\<close> here. The value is the list \<open>results\<close> that the function returns with the
  effects of the call, or the exception that left it with the effects up to there.
  The f-string of line 36 divides the \<open>int\<close> \<open>timeout_ms\<close> by the float \<open>1000.0\<close>,
  which converts it to a float and may raise before the entry is printed.
\<close>

definition check ::
  "world \<Rightarrow> formula list \<Rightarrow> formula list \<Rightarrow> int option
     \<Rightarrow> (exn \<times> effects) + (string list \<times> effects)" where
  "check W assumptions conclusions timeout_arg =
     (let timeout_ms = (case timeout_arg of None \<Rightarrow> 1000 | Some ms \<Rightarrow> ms);
          results = [];
          eff = print (dashes 70) no_effects;
          eff = print [Txt ''Starting Z3 Checks...''] eff;
          eff = print [Txt ''Number of Assumptions: '', Str_int (int (length assumptions))] eff
      in case float_of_int timeout_ms of
           Inl ex \<Rightarrow> Inl (ex, eff)
         | Inr timeout_float \<Rightarrow>
            (let eff = print [Txt ''Timeout per check: '', Repr_float (float_div timeout_float 1000),
                              Txt '' seconds''] eff;
                 eff = print (dashes 70) eff
             in case check_loop W assumptions timeout_ms (length conclusions)
                       (enumerate 0 conclusions) (results, eff) of
                  Inl err \<Rightarrow> Inl err
                | Inr (results, eff) \<Rightarrow>
                   (let eff = print (dashes 70) eff;
                        eff = print [Txt ''Checks Complete.''] eff;
                        eff = print (dashes 70) eff
                    in Inr (results, eff))))"

section \<open>Notions for stating the properties\<close>

text \<open>
  The session in which the script decides one conclusion: the timeout is the only
  parameter set, and the assertions are the assumptions followed by the negated
  conclusion.
\<close>

definition session :: "int \<Rightarrow> formula list \<Rightarrow> formula \<Rightarrow> solver" where
  "session timeout_ms assumptions concl =
     \<lparr>params = [(''timeout'', timeout_ms)], assertions = assumptions @ [Not concl]\<rparr>"

text \<open>The status appended for an answer of the solver, and the conclusions whose
  printing raises nothing that leaves \<open>check\<close>.\<close>

definition verdict :: "check_sat_result \<Rightarrow> string" where
  "verdict r = (case r of unsat \<Rightarrow> ''holds'' | sat \<Rightarrow> ''doesn't hold'' | unknown \<Rightarrow> ''unknown'')"

definition printable :: "world \<Rightarrow> formula \<Rightarrow> bool" where
  "printable W concl =
     (case str_of W concl of
        Inr s \<Rightarrow> True
      | Inl ex \<Rightarrow> is_Exception ex \<and>
          (case sexpr_of W concl of Inr s \<Rightarrow> True | Inl ex' \<Rightarrow> ex' = AttributeError))"

text \<open>The five entries printed before the loop when the timeout converts to a float,
  the timeout in force for a call, and
  the two parts of an outcome: what the caller gets and what has happened.\<close>

definition header :: "formula list \<Rightarrow> int \<Rightarrow> printed list" where
  "header assumptions timeout_ms =
     [dashes 70, [Txt ''Starting Z3 Checks...''],
      [Txt ''Number of Assumptions: '', Str_int (int (length assumptions))],
      [Txt ''Timeout per check: '',
       Repr_float (float_div (nearest_double (of_int timeout_ms)) 1000), Txt '' seconds''],
      dashes 70]"

definition timeout_of :: "int option \<Rightarrow> int" where
  "timeout_of timeout_arg = (case timeout_arg of None \<Rightarrow> 1000 | Some ms \<Rightarrow> ms)"

definition returned :: "(exn \<times> effects) + (string list \<times> effects) \<Rightarrow> exn + string list" where
  "returned outcome = (case outcome of Inl (ex, eff) \<Rightarrow> Inl ex | Inr (rs, eff) \<Rightarrow> Inr rs)"

definition effects_of :: "(exn \<times> effects) + (string list \<times> effects) \<Rightarrow> effects" where
  "effects_of outcome = (case outcome of Inl (ex, eff) \<Rightarrow> eff | Inr (rs, eff) \<Rightarrow> eff)"

subsection \<open>Catalog entries and a stand-in world for concrete runs\<close>

text \<open>
  Four entries of the axiom catalog (lines 153-161), and a world to run \<open>check\<close> in:
  its oracle answers \<open>unsat\<close> when a formula is asserted together with its negation,
  \<open>unknown\<close> when asked about upper division and \<open>sat\<close> otherwise; pretty-printing
  works for the reflexivity axiom only, the S-expression for unit reduction only; the
  clock advances a quarter of a second per reading.
\<close>

definition Axiom_5_Refl :: formula where
  "Axiom_5_Refl = ForAll [x] (Eq (f x x) e)"

definition Axiom_6_UnitRed :: formula where
  "Axiom_6_UnitRed = ForAll [x] (Eq (f e x) x)"

definition Axiom_12_LowerDiv :: formula where
  "Axiom_12_LowerDiv = ForAll [x, y] (Eq (m x (f x y)) y)"

definition Axiom_13_UpperDiv :: formula where
  "Axiom_13_UpperDiv = ForAll [x, y] (Eq (f x (m x y)) y)"

definition example_decide :: "solver \<Rightarrow> check_sat_result" where
  "example_decide s =
     (if list_ex (\<lambda>a. Not a \<in> set (assertions s)) (assertions s) then unsat
      else if Not Axiom_13_UpperDiv \<in> set (assertions s) then unknown
      else sat)"

definition example_world :: world where
  "example_world =
     \<lparr>decide = example_decide,
      str_of = (\<lambda>c. if c = Axiom_5_Refl then Inr ''ForAll(x, f(x, x) == e)'' else Inl RecursionError),
      sexpr_of = (\<lambda>c. if c = Axiom_6_UnitRed then Inr ''(forall ((x U)) (= (f e x) x))''
                       else Inl AttributeError),
      time_at = (\<lambda>k. of_nat k / 4)\<rparr>"

text \<open>
  Three variations of that world: a clock that advances half a second per reading; an
  S-expression dump that raises \<open>Z3Exception\<close> on every formula; and a printer that
  never fails together with a clock of whole seconds.
\<close>

definition slow_clock_world :: world where
  "slow_clock_world = example_world\<lparr>time_at := (\<lambda>k. of_nat k / 2)\<rparr>"

definition broken_dump_world :: world where
  "broken_dump_world = example_world\<lparr>sexpr_of := (\<lambda>c. Inl (Z3Exception ''invalid usage''))\<rparr>"

definition other_oracle_world :: world where
  "other_oracle_world = example_world\<lparr>str_of := (\<lambda>c. Inr ''conclusion''), time_at := (\<lambda>k. of_nat k)\<rparr>"

section \<open>Properties of the term builder\<close>

lemma operators_as_App:
  "p = App ''p''" "m = App ''m''" "f = App ''f''"
  by (simp_all add: fun_eq_iff p_def m_def f_def)

lemma left_nested_rev_Cons:
  "before \<noteq> [] \<Longrightarrow>
     left_nested_rev opname (oN # before) = App opname (left_nested_rev opname before) oN"
  by (cases before) simp_all

lemma foldl_App_left_nested:
  "foldl (\<lambda>res arg. App opname res arg) a rest = left_nested opname (a # rest)"
proof (induction rest rule: rev_induct)
  case Nil
  show ?case by (simp add: left_nested_def)
next
  case (snoc b rest)
  have "left_nested opname (a # rest @ [b]) = left_nested_rev opname (b # (rev rest @ [a]))"
    by (simp add: left_nested_def)
  also have "\<dots> = App opname (left_nested_rev opname (rev rest @ [a])) b"
    by (rule left_nested_rev_Cons) simp
  also have "\<dots> = App opname (left_nested opname (a # rest)) b"
    by (simp add: left_nested_def)
  finally show ?case
    using snoc.IH by simp
qed

lemma applications_left_nested_rev:
  "operands \<noteq> [] \<Longrightarrow>
     applications (left_nested_rev opname operands)
       = length operands - 1 + sum_list (map applications operands)"
proof (induction operands)
  case Nil
  then show ?case by simp
next
  case (Cons oN before)
  show ?case
  proof (cases "before = []")
    case True
    then show ?thesis by simp
  next
    case False
    with Cons.IH left_nested_rev_Cons [OF False, of opname oN] show ?thesis
      by (cases before) simp_all
  qed
qed

lemma applications_left_nested:
  "operands \<noteq> [] \<Longrightarrow>
     applications (left_nested opname operands)
       = length operands - 1 + sum_list (map applications operands)"
  using applications_left_nested_rev [of "rev operands" opname]
  by (simp add: left_nested_def rev_map [symmetric])

text \<open>
  C4: on a non-empty sequence of \<open>N\<close> operands each of \<open>P\<close>, \<open>M\<close> and \<open>F\<close>
  returns the left-nested term \<open>op(op(...op(o1,o2)...,o_{N-1}),o_N)\<close> over its
  operator; that term has \<open>N - 1\<close> applications beyond those inside the operands, and
  for a single operand it is the operand itself.
\<close>

theorem left_assoc_shape:
  assumes "args \<noteq> []"
  shows "P args = Inr (left_nested ''p'' args)
       \<and> M args = Inr (left_nested ''m'' args)
       \<and> F args = Inr (left_nested ''f'' args)
       \<and> applications (left_nested opname args)
           = length args - 1 + sum_list (map applications args)
       \<and> P [a] = Inr a \<and> M [a] = Inr a \<and> F [a] = Inr a"
proof -
  obtain a0 rest where args: "args = a0 # rest"
    using assms by (cases args) auto
  have "P args = Inr (left_nested ''p'' args)"
    using foldl_App_left_nested [of "''p''" a0 rest] by (simp add: P_def args operators_as_App)
  moreover have "M args = Inr (left_nested ''m'' args)"
    using foldl_App_left_nested [of "''m''" a0 rest] by (simp add: M_def args operators_as_App)
  moreover have "F args = Inr (left_nested ''f'' args)"
    using foldl_App_left_nested [of "''f''" a0 rest] by (simp add: F_def args operators_as_App)
  moreover note applications_left_nested [OF assms, of opname]
  moreover have "P [a] = Inr a \<and> M [a] = Inr a \<and> F [a] = Inr a"
    by (simp add: P_def M_def F_def)
  ultimately show ?thesis by blast
qed

theorem left_assoc_shape_witness:
  "[x, y, z, w] \<noteq> []
   \<and> P [x, y, z, w] = Inr (App ''p'' (App ''p'' (App ''p'' (Const ''x'') (Const ''y'')) (Const ''z'')) (Const ''w''))
   \<and> M [x, y, z, w] = Inr (App ''m'' (App ''m'' (App ''m'' (Const ''x'') (Const ''y'')) (Const ''z'')) (Const ''w''))
   \<and> F [x, y, z, w] = Inr (App ''f'' (App ''f'' (App ''f'' (Const ''x'') (Const ''y'')) (Const ''z'')) (Const ''w''))
   \<and> applications (left_nested ''p'' [x, y, z, w]) = 3"
  using left_assoc_shape [of "[x, y, z, w]" "''p''" x]
  by (simp add: left_nested_def x_def y_def z_def w_def)

text \<open>
  C5: with no operands each of \<open>P\<close>, \<open>M\<close> and \<open>F\<close> raises \<open>ValueError\<close> and
  builds no term, and the empty sequence is the only input on which they raise.
\<close>

theorem left_assoc_empty:
  "P [] = Inl (ValueError ''Function P requires at least one argument.'')
   \<and> M [] = Inl (ValueError ''Function M requires at least one argument.'')
   \<and> F [] = Inl (ValueError ''Function F requires at least one argument.'')
   \<and> isl (P args) = (args = []) \<and> isl (M args) = (args = []) \<and> isl (F args) = (args = [])"
  by (simp add: P_def M_def F_def)

text \<open>
  C6: \<open>t(a, b)\<close> is the term \<open>f(f(a, b), b)\<close> and \<open>v(a, b)\<close> is
  \<open>t(t(a, b), a)\<close>, that is \<open>f(f(f(f(a, b), b), a), a)\<close>, as terms and for all
  \<open>a\<close> and \<open>b\<close>.
\<close>

theorem derived_operators:
  "t a b = App ''f'' (App ''f'' a b) b
   \<and> v a b = t (t a b) a
   \<and> v a b = App ''f'' (App ''f'' (App ''f'' (App ''f'' a b) b) a) a"
  by (simp add: t_def v_def f_def)

section \<open>Properties of the checker\<close>

subsection \<open>One iteration\<close>

lemma session_built:
  "solver_add (Not concl) (solver_add_list assumptions (solver_set ''timeout'' timeout_ms Solver))
     = session timeout_ms assumptions concl"
  by (simp add: solver_add_def solver_add_list_def solver_set_def Solver_def session_def)

lemma print_conclusion_Inr_iff:
  "(\<exists>eff'. print_conclusion W concl eff = Inr eff') = printable W concl"
  by (auto simp: print_conclusion_def printable_def split: sum.splits)

lemma print_conclusion_Inr:
  "print_conclusion W concl eff = Inr eff' \<Longrightarrow>
     z3_calls eff' = z3_calls eff \<and> clock_reads eff' = clock_reads eff
     \<and> (\<exists>entry. console eff' = console eff @ [entry])"
  by (auto simp: print_conclusion_def print_def split: sum.splits if_splits)

lemma print_conclusion_Inl:
  "print_conclusion W concl eff = Inl (ex, eff') \<Longrightarrow> eff' = eff"
  by (auto simp: print_conclusion_def split: sum.splits if_splits)

lemma check_step_Inr:
  assumes "check_step W assumptions timeout_ms n i concl (rs, eff) = Inr (rs', eff')"
  shows "rs' = rs @ [verdict (decide W (session timeout_ms assumptions concl))]
    \<and> z3_calls eff' = z3_calls eff @ [Solver_new, Solver_check (session timeout_ms assumptions concl)]
    \<and> (\<exists>ext. console eff' = console eff @ ext)
    \<and> printable W concl"
proof -
  let ?eff2 = "print [Txt (CHR 0x0A # ''[Check ''), Str_int (int i + 1), Txt ''/'',
                        Str_int (int n), Txt ''] Checking Conclusion:''] (call_z3 Solver_new eff)"
  obtain eff3 where p3: "print_conclusion W concl ?eff2 = Inr eff3"
    using assms by (auto simp: check_step_def Let_def split: sum.splits)
  have pr: "printable W concl"
    using p3 print_conclusion_Inr_iff by blast
  from print_conclusion_Inr [OF p3]
  obtain entry where e3: "z3_calls eff3 = z3_calls eff @ [Solver_new]"
      "console eff3 = console eff @ [[Txt (CHR 0x0A # ''[Check ''), Str_int (int i + 1), Txt ''/'',
                        Str_int (int n), Txt ''] Checking Conclusion:''], entry]"
    by (auto simp: print_def call_z3_def)
  show ?thesis
    using assms p3 e3 pr
    by (cases "decide W (session timeout_ms assumptions concl)")
       (auto simp: check_step_def Let_def session_built verdict_def read_clock_def print_def call_z3_def
             split: prod.splits)
qed

lemma check_step_Inl:
  assumes "check_step W assumptions timeout_ms n i concl (rs, eff) = Inl (ex, eff')"
  shows "z3_calls eff' = z3_calls eff @ [Solver_new] \<and> (\<exists>ext. console eff' = console eff @ ext)
    \<and> \<not> printable W concl"
proof -
  let ?eff2 = "print [Txt (CHR 0x0A # ''[Check ''), Str_int (int i + 1), Txt ''/'',
                        Str_int (int n), Txt ''] Checking Conclusion:''] (call_z3 Solver_new eff)"
  have p3: "print_conclusion W concl ?eff2 = Inl (ex, eff')"
    using assms by (auto simp: check_step_def Let_def split: sum.splits prod.splits if_splits)
  have "\<not> printable W concl"
    using p3 print_conclusion_Inr_iff [of W concl ?eff2] by simp
  moreover have "eff' = ?eff2"
    using print_conclusion_Inl [OF p3] .
  ultimately show ?thesis
    by (simp add: print_def call_z3_def)
qed

lemma check_step_total:
  "printable W concl \<Longrightarrow> \<exists>st'. check_step W assumptions timeout_ms n i concl st = Inr st'"
proof -
  assume pr: "printable W concl"
  obtain rs eff where st: "st = (rs, eff)" by (cases st)
  let ?eff2 = "print [Txt (CHR 0x0A # ''[Check ''), Str_int (int i + 1), Txt ''/'',
                        Str_int (int n), Txt ''] Checking Conclusion:''] (call_z3 Solver_new eff)"
  obtain eff3 where "print_conclusion W concl ?eff2 = Inr eff3"
    using pr print_conclusion_Inr_iff [of W concl ?eff2] by blast
  then show ?thesis
    by (simp add: st check_step_def Let_def split: prod.splits)
qed


subsection \<open>The loop\<close>

lemma check_loop_Inr:
  "check_loop W assumptions timeout_ms n ics (rs, eff) = Inr (rs', eff') \<Longrightarrow>
     rs' = rs @ map (\<lambda>ic. verdict (decide W (session timeout_ms assumptions (snd ic)))) ics
     \<and> z3_calls eff' = z3_calls eff
           @ concat (map (\<lambda>ic. [Solver_new, Solver_check (session timeout_ms assumptions (snd ic))]) ics)
     \<and> (\<exists>ext. console eff' = console eff @ ext)
     \<and> (\<forall>ic \<in> set ics. printable W (snd ic))"
proof (induction ics arbitrary: rs eff)
  case Nil
  then show ?case by simp
next
  case (Cons ic ics)
  obtain i concl where ic: "ic = (i, concl)" by (cases ic)
  from Cons.prems obtain rs1 eff1 where
    s1: "check_step W assumptions timeout_ms n i concl (rs, eff) = Inr (rs1, eff1)"
    and l1: "check_loop W assumptions timeout_ms n ics (rs1, eff1) = Inr (rs', eff')"
    by (auto simp: ic split: sum.splits)
  from check_step_Inr [OF s1] Cons.IH [OF l1] show ?case
    by (auto simp: ic)
qed

lemma check_loop_Inl:
  "check_loop W assumptions timeout_ms n ics (rs, eff) = Inl (ex, eff') \<Longrightarrow>
     (\<exists>pre :: (nat \<times> formula) list. z3_calls eff' = z3_calls eff
           @ concat (map (\<lambda>ic. [Solver_new, Solver_check (session timeout_ms assumptions (snd ic))]) pre)
           @ [Solver_new])
     \<and> (\<exists>ext. console eff' = console eff @ ext)
     \<and> (\<exists>ic \<in> set ics. \<not> printable W (snd ic))"
proof (induction ics arbitrary: rs eff)
  case Nil
  then show ?case by simp
next
  case (Cons ic ics)
  obtain i concl where ic: "ic = (i, concl)" by (cases ic)
  show ?case
  proof (cases "check_step W assumptions timeout_ms n i concl (rs, eff)")
    case (Inl err)
    with Cons.prems have s1: "check_step W assumptions timeout_ms n i concl (rs, eff) = Inl (ex, eff')"
      by (simp add: ic)
    from check_step_Inl [OF s1] have
      "z3_calls eff' = z3_calls eff @ concat (map (\<lambda>ic. [Solver_new, Solver_check (session timeout_ms assumptions (snd ic))]) ([] :: (nat \<times> formula) list)) @ [Solver_new]"
      and "\<exists>ext. console eff' = console eff @ ext" and "\<not> printable W concl"
      by simp_all
    then show ?thesis
      unfolding ic by (metis list.set_intros(1) snd_conv)
  next
    case (Inr st1)
    obtain rs1 eff1 where st1: "st1 = (rs1, eff1)" by (cases st1)
    have s1: "check_step W assumptions timeout_ms n i concl (rs, eff) = Inr (rs1, eff1)"
      using Inr st1 by simp
    have l1: "check_loop W assumptions timeout_ms n ics (rs1, eff1) = Inl (ex, eff')"
      using Cons.prems s1 by (simp add: ic)
    note ih = Cons.IH [OF l1]
    from ih obtain pre1 :: "(nat \<times> formula) list" where
      z: "z3_calls eff' = z3_calls eff1
           @ concat (map (\<lambda>ic. [Solver_new, Solver_check (session timeout_ms assumptions (snd ic))]) pre1)
           @ [Solver_new]"
      by blast
    from ih obtain ext1 where c: "console eff' = console eff1 @ ext1"
      by blast
    from ih have np: "\<exists>ic \<in> set ics. \<not> printable W (snd ic)"
      by (elim conjE)
    from check_step_Inr [OF s1] obtain ext0 where
      z0: "z3_calls eff1 = z3_calls eff @ [Solver_new, Solver_check (session timeout_ms assumptions concl)]"
      and c0: "console eff1 = console eff @ ext0"
      by blast
    have "z3_calls eff' = z3_calls eff
           @ concat (map (\<lambda>ic. [Solver_new, Solver_check (session timeout_ms assumptions (snd ic))]) ((i, concl) # pre1))
           @ [Solver_new]"
      using z z0 by simp
    moreover have "console eff' = console eff @ (ext0 @ ext1)"
      using c c0 by simp
    ultimately show ?thesis
      using np by (metis list.set_intros(2))
  qed
qed

lemma check_loop_total:
  "\<forall>ic \<in> set ics. printable W (snd ic) \<Longrightarrow>
     \<exists>st'. check_loop W assumptions timeout_ms n ics st = Inr st'"
proof (induction ics arbitrary: st)
  case Nil
  then show ?case by simp
next
  case (Cons ic ics)
  obtain i concl where ic: "ic = (i, concl)" by (cases ic)
  from Cons.prems have "printable W concl" by (simp add: ic)
  from check_step_total [OF this]
  obtain st1 where "check_step W assumptions timeout_ms n i concl st = Inr st1" by blast
  moreover from Cons.prems have "\<forall>ic \<in> set ics. printable W (snd ic)" by simp
  from Cons.IH [OF this] obtain st2 where "check_loop W assumptions timeout_ms n ics st1 = Inr st2" by blast
  ultimately show ?case by (simp add: ic)
qed

subsection \<open>The whole function\<close>

lemma map_snd_enumerate_comp:
  "map (\<lambda>ic. g (snd ic)) (enumerate k cs) = map g cs"
  by (induction cs arbitrary: k) simp_all

lemma set_enumerate_snd:
  "(\<forall>ic \<in> set (enumerate k cs). Q (snd ic)) = (\<forall>c \<in> set cs. Q c)"
proof -
  have "snd ` set (enumerate k cs) = set cs"
    by (metis list.set_map map_snd_enumerate)
  then show ?thesis by (metis (no_types, lifting) ball_imageD imageE image_eqI)
qed

lemma check_unfold:
  "check W assumptions conclusions timeout_arg =
     (if fits_float (timeout_of timeout_arg) then
        (case check_loop W assumptions (timeout_of timeout_arg) (length conclusions)
                (enumerate 0 conclusions)
                ([], \<lparr>console = header assumptions (timeout_of timeout_arg), z3_calls = [], clock_reads = 0\<rparr>) of
           Inl err \<Rightarrow> Inl err
         | Inr (results, eff) \<Rightarrow>
             Inr (results, eff\<lparr>console := console eff @ [dashes 70, [Txt ''Checks Complete.''], dashes 70]\<rparr>))
      else Inl (OverflowError,
                \<lparr>console = take 3 (header assumptions (timeout_of timeout_arg)),
                   z3_calls = [], clock_reads = 0\<rparr>))"
  by (simp add: check_def Let_def print_def no_effects_def header_def timeout_of_def float_of_int_def
           split: sum.splits prod.splits)

lemma check_Inr:
  assumes "check W assumptions conclusions timeout_arg = Inr (rs, eff)"
  shows "rs = map (\<lambda>c. verdict (decide W (session (timeout_of timeout_arg) assumptions c))) conclusions"
    and "z3_calls eff = concat (map (\<lambda>c. [Solver_new, Solver_check (session (timeout_of timeout_arg) assumptions c)]) conclusions)"
    and "\<forall>c \<in> set conclusions. printable W c"
    and "take 5 (console eff) = header assumptions (timeout_of timeout_arg)"
    and "fits_float (timeout_of timeout_arg)"
proof -
  let ?eff0 = "\<lparr>console = header assumptions (timeout_of timeout_arg), z3_calls = [], clock_reads = 0\<rparr>"
  from assms show fits: "fits_float (timeout_of timeout_arg)"
    by (auto simp: check_unfold split: if_splits)
  with assms obtain eff1 where
    l: "check_loop W assumptions (timeout_of timeout_arg) (length conclusions)
          (enumerate 0 conclusions) ([], ?eff0) = Inr (rs, eff1)"
    and eff: "eff = eff1\<lparr>console := console eff1 @ [dashes 70, [Txt ''Checks Complete.''], dashes 70]\<rparr>"
    by (auto simp: check_unfold split: sum.splits)
  note inv = check_loop_Inr [OF l]
  from inv have "rs = map (\<lambda>ic. verdict (decide W (session (timeout_of timeout_arg) assumptions (snd ic)))) (enumerate 0 conclusions)"
    by simp
  then show "rs = map (\<lambda>c. verdict (decide W (session (timeout_of timeout_arg) assumptions c))) conclusions"
    using map_snd_enumerate_comp [of "\<lambda>c. verdict (decide W (session (timeout_of timeout_arg) assumptions c))" 0 conclusions]
    by simp
  from inv have "z3_calls eff1 = concat (map (\<lambda>ic. [Solver_new, Solver_check (session (timeout_of timeout_arg) assumptions (snd ic))]) (enumerate 0 conclusions))"
    by simp
  then show "z3_calls eff = concat (map (\<lambda>c. [Solver_new, Solver_check (session (timeout_of timeout_arg) assumptions c)]) conclusions)"
    using map_snd_enumerate_comp [of "\<lambda>c. [Solver_new, Solver_check (session (timeout_of timeout_arg) assumptions c)]" 0 conclusions]
    by (simp add: eff)
  from inv have "\<forall>ic \<in> set (enumerate 0 conclusions). printable W (snd ic)"
    by blast
  then show "\<forall>c \<in> set conclusions. printable W c"
    by (simp only: set_enumerate_snd)
  from inv obtain ext where "console eff1 = header assumptions (timeout_of timeout_arg) @ ext"
    by auto
  then show "take 5 (console eff) = header assumptions (timeout_of timeout_arg)"
    by (simp add: eff header_def)
qed

lemma check_Inl:
  assumes "check W assumptions conclusions timeout_arg = Inl (ex, eff)"
    and "fits_float (timeout_of timeout_arg)"
  shows "\<exists>pre :: (nat \<times> formula) list. z3_calls eff =
           concat (map (\<lambda>ic. [Solver_new, Solver_check (session (timeout_of timeout_arg) assumptions (snd ic))]) pre)
           @ [Solver_new]"
    and "\<exists>c \<in> set conclusions. \<not> printable W c"
    and "take 5 (console eff) = header assumptions (timeout_of timeout_arg)"
proof -
  let ?eff0 = "\<lparr>console = header assumptions (timeout_of timeout_arg), z3_calls = [], clock_reads = 0\<rparr>"
  from assms have
    l: "check_loop W assumptions (timeout_of timeout_arg) (length conclusions)
          (enumerate 0 conclusions) ([], ?eff0) = Inl (ex, eff)"
    by (auto simp: check_unfold split: sum.splits)
  note inv = check_loop_Inl [OF l]
  from inv show "\<exists>pre :: (nat \<times> formula) list. z3_calls eff =
           concat (map (\<lambda>ic. [Solver_new, Solver_check (session (timeout_of timeout_arg) assumptions (snd ic))]) pre)
           @ [Solver_new]"
    by simp
  from inv have "\<not> (\<forall>ic \<in> set (enumerate 0 conclusions). printable W (snd ic))"
    by blast
  then show "\<exists>c \<in> set conclusions. \<not> printable W c"
    by (simp only: set_enumerate_snd) blast
  from inv obtain ext where "console eff = header assumptions (timeout_of timeout_arg) @ ext"
    by auto
  then show "take 5 (console eff) = header assumptions (timeout_of timeout_arg)"
    by (simp add: header_def)
qed

lemma check_overflow:
  "\<not> fits_float (timeout_of timeout_arg) \<Longrightarrow>
     check W assumptions conclusions timeout_arg =
       Inl (OverflowError,
            \<lparr>console = [dashes 70, [Txt ''Starting Z3 Checks...''],
                         [Txt ''Number of Assumptions: '', Str_int (int (length assumptions))]],
               z3_calls = [], clock_reads = 0\<rparr>)"
  by (simp add: check_unfold header_def)

lemma check_returns:
  assumes "\<forall>c \<in> set conclusions. printable W c"
    and "fits_float (timeout_of timeout_arg)"
  shows "\<exists>rs eff. check W assumptions conclusions timeout_arg = Inr (rs, eff)"
proof -
  from assms(1) have "\<forall>ic \<in> set (enumerate 0 conclusions). printable W (snd ic)"
    by (simp only: set_enumerate_snd)
  from check_loop_total [OF this]
  obtain st' where "check_loop W assumptions (timeout_of timeout_arg) (length conclusions)
          (enumerate 0 conclusions)
          ([], \<lparr>console = header assumptions (timeout_of timeout_arg), z3_calls = [], clock_reads = 0\<rparr>) = Inr st'"
    by blast
  then show ?thesis
    using assms(2) by (cases st') (simp add: check_unfold)
qed

lemma default_fits_float: "fits_float (timeout_of None)"
  by (simp add: fits_float_def timeout_of_def)

subsection \<open>Classification and order of the results\<close>

lemma Inr_returnedD:
  "returned outcome = Inr rs \<Longrightarrow> \<exists>eff. outcome = Inr (rs, eff)"
  by (auto simp: returned_def split: sum.splits prod.splits)

lemma verdict_range: "verdict r \<in> {''holds'', ''doesn't hold'', ''unknown''}"
  by (cases r) (simp_all add: verdict_def)

lemma example_run:
  "returned (check example_world [Axiom_5_Refl] [Axiom_5_Refl, Axiom_6_UnitRed, Axiom_13_UpperDiv] None)
     = Inr [''holds'', ''doesn't hold'', ''unknown'']"
  by code_simp

lemma example_run_reordered:
  "returned (check other_oracle_world [Axiom_5_Refl] [Axiom_13_UpperDiv, Axiom_12_LowerDiv, Axiom_6_UnitRed] None)
     = Inr [''unknown'', ''doesn't hold'', ''doesn't hold'']"
  by code_simp

text \<open>
  C1: when \<open>check\<close> returns, the result at the position of a conclusion is
  \<open>holds\<close> if the solver answered \<open>unsat\<close> for the session of that conclusion,
  \<open>doesn't hold\<close> if it answered \<open>sat\<close>, and \<open>unknown\<close> for any other answer;
  every element of the returned list is one of these three strings.
\<close>

theorem check_classifies:
  assumes "check W assumptions conclusions timeout_arg = Inr (rs, eff)"
    and "i < length conclusions"
  shows "i < length rs
    \<and> (decide W \<lparr>params = [(''timeout'', timeout_of timeout_arg)],
                  assertions = assumptions @ [Not (conclusions ! i)]\<rparr> = unsat
          \<longrightarrow> rs ! i = ''holds'')
    \<and> (decide W \<lparr>params = [(''timeout'', timeout_of timeout_arg)],
                  assertions = assumptions @ [Not (conclusions ! i)]\<rparr> = sat
          \<longrightarrow> rs ! i = ''doesn't hold'')
    \<and> (decide W \<lparr>params = [(''timeout'', timeout_of timeout_arg)],
                  assertions = assumptions @ [Not (conclusions ! i)]\<rparr> \<notin> {unsat, sat}
          \<longrightarrow> rs ! i = ''unknown'')
    \<and> set rs \<subseteq> {''holds'', ''doesn't hold'', ''unknown''}"
proof -
  note rs = check_Inr(1) [OF assms(1)]
  have len: "i < length rs"
    using assms(2) by (simp add: rs)
  have nth: "rs ! i = verdict (decide W (session (timeout_of timeout_arg) assumptions (conclusions ! i)))"
    using assms(2) by (simp add: rs)
  have "set rs \<subseteq> {''holds'', ''doesn't hold'', ''unknown''}"
    unfolding rs using verdict_range by auto
  with len nth show ?thesis
    by (cases "decide W (session (timeout_of timeout_arg) assumptions (conclusions ! i))")
       (simp_all add: verdict_def session_def)
qed

theorem check_classifies_witness:
  "\<exists>eff. check example_world [Axiom_5_Refl] [Axiom_5_Refl, Axiom_6_UnitRed, Axiom_13_UpperDiv] None
            = Inr ([''holds'', ''doesn't hold'', ''unknown''], eff)
     \<and> (2::nat) < length [Axiom_5_Refl, Axiom_6_UnitRed, Axiom_13_UpperDiv]
     \<and> decide example_world \<lparr>params = [(''timeout'', 1000)],
           assertions = [Axiom_5_Refl] @ [Not ([Axiom_5_Refl, Axiom_6_UnitRed, Axiom_13_UpperDiv] ! 2)]\<rparr>
         \<notin> {unsat, sat}
     \<and> [''holds'', ''doesn't hold'', ''unknown''] ! 2 = ''unknown''"
proof -
  from Inr_returnedD [OF example_run] obtain eff where
    run: "check example_world [Axiom_5_Refl] [Axiom_5_Refl, Axiom_6_UnitRed, Axiom_13_UpperDiv] None
            = Inr ([''holds'', ''doesn't hold'', ''unknown''], eff)"
    by blast
  have second: "(2::nat) < length [Axiom_5_Refl, Axiom_6_UnitRed, Axiom_13_UpperDiv]"
    by simp
  have "decide example_world \<lparr>params = [(''timeout'', 1000)],
           assertions = [Axiom_5_Refl] @ [Not ([Axiom_5_Refl, Axiom_6_UnitRed, Axiom_13_UpperDiv] ! 2)]\<rparr>
         \<notin> {unsat, sat}"
    by (simp add: example_world_def example_decide_def Axiom_5_Refl_def Axiom_13_UpperDiv_def)
  with check_classifies [OF run second] run show ?thesis
    by (simp add: timeout_of_def)
qed

text \<open>
  C2: the returned list has one result per conclusion, in the order of the conclusions:
  its length is that of the list of conclusions, and its \<open>i\<close>-th element is the
  single result that \<open>check\<close> returns for the \<open>i\<close>-th conclusion alone.
\<close>

theorem check_one_result_per_conclusion:
  assumes "check W assumptions conclusions timeout_arg = Inr (rs, eff)"
  shows "length rs = length conclusions
    \<and> (\<forall>i<length conclusions.
          \<exists>eff1. check W assumptions [conclusions ! i] timeout_arg = Inr ([rs ! i], eff1))"
proof -
  note rs = check_Inr(1) [OF assms]
  have "\<exists>eff1. check W assumptions [conclusions ! i] timeout_arg = Inr ([rs ! i], eff1)"
    if "i < length conclusions" for i
  proof -
    from check_Inr(3) [OF assms] that have "\<forall>c \<in> set [conclusions ! i]. printable W c"
      by simp
    from check_returns [OF this check_Inr(5) [OF assms]] obtain rs1 eff1 where
      one: "check W assumptions [conclusions ! i] timeout_arg = Inr (rs1, eff1)"
      by blast
    from check_Inr(1) [OF one] that have "rs1 = [rs ! i]"
      by (simp add: rs)
    with one show ?thesis by blast
  qed
  then show ?thesis by (simp add: rs)
qed

theorem check_one_result_per_conclusion_witness:
  "\<exists>eff. check example_world [Axiom_5_Refl] [Axiom_5_Refl, Axiom_6_UnitRed, Axiom_13_UpperDiv] None
            = Inr ([''holds'', ''doesn't hold'', ''unknown''], eff)
     \<and> length [''holds'', ''doesn't hold'', ''unknown'']
         = length [Axiom_5_Refl, Axiom_6_UnitRed, Axiom_13_UpperDiv]
     \<and> (\<exists>eff1. check example_world [Axiom_5_Refl] [Axiom_6_UnitRed] None = Inr ([''doesn't hold''], eff1))"
proof -
  from Inr_returnedD [OF example_run] obtain eff where
    run: "check example_world [Axiom_5_Refl] [Axiom_5_Refl, Axiom_6_UnitRed, Axiom_13_UpperDiv] None
            = Inr ([''holds'', ''doesn't hold'', ''unknown''], eff)"
    by blast
  have "(1::nat) < length [Axiom_5_Refl, Axiom_6_UnitRed, Axiom_13_UpperDiv]"
    by simp
  with check_one_result_per_conclusion [OF run]
  have "\<exists>eff1. check example_world [Axiom_5_Refl]
                  [[Axiom_5_Refl, Axiom_6_UnitRed, Axiom_13_UpperDiv] ! 1] None
                = Inr ([[''holds'', ''doesn't hold'', ''unknown''] ! 1], eff1)"
    by blast
  with run show ?thesis by simp
qed

lemma printable_clock: "printable (W\<lparr>time_at := clock\<rparr>) c = printable W c"
  by (simp add: printable_def split: sum.splits)

lemma effects_of_cases:
  obtains (Raised) ex eff where "outcome = Inl (ex, eff)" "effects_of outcome = eff"
        | (Returned) rs eff where "outcome = Inr (rs, eff)" "effects_of outcome = eff"
  by (cases outcome) (auto simp: effects_of_def)

text \<open>
  C3, as stated, fails: the elements of the returned list are the status strings and
  nothing else. Two runs that differ only in the clock, with a quarter and with half a
  second elapsed for the one check, return the same one-element list \<open>["holds"]\<close>;
  the elapsed time appears on the console only.
\<close>

theorem check_returns_status_only:
  "returned (check example_world [Axiom_5_Refl] [Axiom_5_Refl] None) = Inr [''holds'']
   \<and> returned (check slow_clock_world [Axiom_5_Refl] [Axiom_5_Refl] None) = Inr [''holds'']
   \<and> console (effects_of (check example_world [Axiom_5_Refl] [Axiom_5_Refl] None)) ! 7
       = [Txt ''  Result: HOLDS (Assumptions entail Conclusion) '', Txt ''('', Fixed3 (1 / 4), Txt ''s)'']
   \<and> console (effects_of (check slow_clock_world [Axiom_5_Refl] [Axiom_5_Refl] None)) ! 7
       = [Txt ''  Result: HOLDS (Assumptions entail Conclusion) '', Txt ''('', Fixed3 (1 / 2), Txt ''s)'']"
  by code_simp

text \<open>
  C3, amended: each element of the returned list is the status alone, one of the three
  strings; the elapsed time of a check is printed and not returned, so the returned
  list is the same whatever the clock reads.
\<close>

theorem check_result_without_elapsed:
  assumes "check W assumptions conclusions timeout_arg = Inr (rs, eff)"
  shows "set rs \<subseteq> {''holds'', ''doesn't hold'', ''unknown''}
    \<and> (\<exists>eff'. check (W\<lparr>time_at := clock\<rparr>) assumptions conclusions timeout_arg = Inr (rs, eff'))"
proof -
  note rs = check_Inr(1) [OF assms]
  have range: "set rs \<subseteq> {''holds'', ''doesn't hold'', ''unknown''}"
    unfolding rs using verdict_range by auto
  from check_Inr(3) [OF assms] have "\<forall>c \<in> set conclusions. printable (W\<lparr>time_at := clock\<rparr>) c"
    by (simp add: printable_clock)
  from check_returns [OF this check_Inr(5) [OF assms]] obtain rs' eff' where
    run': "check (W\<lparr>time_at := clock\<rparr>) assumptions conclusions timeout_arg = Inr (rs', eff')"
    by blast
  from check_Inr(1) [OF run'] have "rs' = rs"
    by (simp add: rs)
  with run' range show ?thesis by blast
qed

theorem check_result_without_elapsed_witness:
  "\<exists>eff eff'.
     check example_world [Axiom_5_Refl] [Axiom_5_Refl, Axiom_6_UnitRed, Axiom_13_UpperDiv] None
       = Inr ([''holds'', ''doesn't hold'', ''unknown''], eff)
     \<and> check (example_world\<lparr>time_at := (\<lambda>k. 10 * of_nat k)\<rparr>) [Axiom_5_Refl]
          [Axiom_5_Refl, Axiom_6_UnitRed, Axiom_13_UpperDiv] None
       = Inr ([''holds'', ''doesn't hold'', ''unknown''], eff')"
proof -
  from Inr_returnedD [OF example_run] obtain eff where
    run: "check example_world [Axiom_5_Refl] [Axiom_5_Refl, Axiom_6_UnitRed, Axiom_13_UpperDiv] None
            = Inr ([''holds'', ''doesn't hold'', ''unknown''], eff)"
    by blast
  from check_result_without_elapsed [OF run, of "\<lambda>k. 10 * of_nat k"] run show ?thesis
    by blast
qed

subsection \<open>Independence of the sessions\<close>

text \<open>
  C7, as stated, fails: a failure on another conclusion can take the classification of
  a conclusion away. Alone, the reflexivity axiom is classified \<open>holds\<close>; in a list
  with a conclusion whose printing raises an exception that \<open>check\<close> does not handle,
  before or after it, the call ends with that exception and returns no classification.
\<close>

theorem failure_elsewhere_loses_result:
  "returned (check broken_dump_world [Axiom_5_Refl] [Axiom_5_Refl] None) = Inr [''holds'']
   \<and> returned (check broken_dump_world [Axiom_5_Refl] [Axiom_5_Refl, Axiom_6_UnitRed] None)
       = Inl (Z3Exception ''invalid usage'')
   \<and> returned (check broken_dump_world [Axiom_5_Refl] [Axiom_6_UnitRed, Axiom_5_Refl] None)
       = Inl (Z3Exception ''invalid usage'')"
  by code_simp

text \<open>
  C7, amended: in a call that returns, every conclusion gets a session of its own,
  opened for it and decided once, that holds the timeout, the assumptions and the
  negation of that conclusion and nothing else. So for one oracle, one list of
  assumptions and one timeout, a conclusion gets the same result in any two calls that
  return, wherever it stands and whatever the other conclusions and the answers of
  the oracle for them are.
\<close>

theorem check_sessions_isolated:
  assumes "check W assumptions conclusions timeout_arg = Inr (rs, eff)"
    and "check W' assumptions conclusions' timeout_arg = Inr (rs', eff')"
    and "decide W' = decide W"
    and "i < length conclusions" and "j < length conclusions'"
    and "conclusions ! i = conclusions' ! j"
  shows "rs ! i = rs' ! j
    \<and> z3_calls eff = concat (map (\<lambda>c. [Solver_new,
          Solver_check \<lparr>params = [(''timeout'', timeout_of timeout_arg)],
                        assertions = assumptions @ [Not c]\<rparr>]) conclusions)"
proof -
  have "rs ! i = verdict (decide W (session (timeout_of timeout_arg) assumptions (conclusions ! i)))"
    using check_Inr(1) [OF assms(1)] assms(4) by simp
  moreover have "rs' ! j = verdict (decide W' (session (timeout_of timeout_arg) assumptions (conclusions' ! j)))"
    using check_Inr(1) [OF assms(2)] assms(5) by simp
  ultimately have "rs ! i = rs' ! j"
    using assms(3,6) by simp
  with check_Inr(2) [OF assms(1)] show ?thesis
    by (simp add: session_def)
qed

theorem check_sessions_isolated_witness:
  "\<exists>eff eff'.
     check example_world [Axiom_5_Refl] [Axiom_5_Refl, Axiom_6_UnitRed, Axiom_13_UpperDiv] None
       = Inr ([''holds'', ''doesn't hold'', ''unknown''], eff)
     \<and> check other_oracle_world [Axiom_5_Refl] [Axiom_13_UpperDiv, Axiom_12_LowerDiv, Axiom_6_UnitRed] None
       = Inr ([''unknown'', ''doesn't hold'', ''doesn't hold''], eff')
     \<and> decide other_oracle_world = decide example_world
     \<and> (2::nat) < length [Axiom_5_Refl, Axiom_6_UnitRed, Axiom_13_UpperDiv]
     \<and> (0::nat) < length [Axiom_13_UpperDiv, Axiom_12_LowerDiv, Axiom_6_UnitRed]
     \<and> [Axiom_5_Refl, Axiom_6_UnitRed, Axiom_13_UpperDiv] ! 2
         = [Axiom_13_UpperDiv, Axiom_12_LowerDiv, Axiom_6_UnitRed] ! 0
     \<and> [''holds'', ''doesn't hold'', ''unknown''] ! 2 = [''unknown'', ''doesn't hold'', ''doesn't hold''] ! 0
     \<and> z3_calls eff =
         [Solver_new, Solver_check \<lparr>params = [(''timeout'', 1000)], assertions = [Axiom_5_Refl, Not Axiom_5_Refl]\<rparr>,
          Solver_new, Solver_check \<lparr>params = [(''timeout'', 1000)], assertions = [Axiom_5_Refl, Not Axiom_6_UnitRed]\<rparr>,
          Solver_new, Solver_check \<lparr>params = [(''timeout'', 1000)], assertions = [Axiom_5_Refl, Not Axiom_13_UpperDiv]\<rparr>]"
proof -
  from Inr_returnedD [OF example_run] obtain eff where
    run: "check example_world [Axiom_5_Refl] [Axiom_5_Refl, Axiom_6_UnitRed, Axiom_13_UpperDiv] None
            = Inr ([''holds'', ''doesn't hold'', ''unknown''], eff)"
    by blast
  from Inr_returnedD [OF example_run_reordered] obtain eff' where
    run': "check other_oracle_world [Axiom_5_Refl] [Axiom_13_UpperDiv, Axiom_12_LowerDiv, Axiom_6_UnitRed] None
            = Inr ([''unknown'', ''doesn't hold'', ''doesn't hold''], eff')"
    by blast
  have same: "decide other_oracle_world = decide example_world"
    by (simp add: other_oracle_world_def)
  have i: "(2::nat) < length [Axiom_5_Refl, Axiom_6_UnitRed, Axiom_13_UpperDiv]"
    and j: "(0::nat) < length [Axiom_13_UpperDiv, Axiom_12_LowerDiv, Axiom_6_UnitRed]"
    and eq: "[Axiom_5_Refl, Axiom_6_UnitRed, Axiom_13_UpperDiv] ! 2
         = [Axiom_13_UpperDiv, Axiom_12_LowerDiv, Axiom_6_UnitRed] ! 0"
    by simp_all
  from check_sessions_isolated [OF run run' same i j eq] run run' same show ?thesis
    by (simp add: timeout_of_def)
qed

subsection \<open>Failures of printing, the default timeout, the empty list\<close>

lemma print_conclusion_printable:
  "printable W c \<Longrightarrow>
     print_conclusion W c eff0 =
       Inr (print [Txt (''  '' @ (case str_of W c of
                                   Inr s \<Rightarrow> s
                                 | Inl ex \<Rightarrow> (case sexpr_of W c of
                                                 Inr s \<Rightarrow> s
                                               | Inl ex' \<Rightarrow> ''[Could not format conclusion]'')))] eff0)"
  by (auto simp: printable_def print_conclusion_def split: sum.splits)

text \<open>
  C8, as stated, fails: when pretty-printing a conclusion raises and the S-expression
  dump raises something other than \<open>AttributeError\<close>, that exception leaves
  \<open>check\<close>. Here the first of two conclusions does so; a session was opened for it,
  and no conclusion was decided.
\<close>

theorem display_failure_can_abort:
  "str_of broken_dump_world Axiom_6_UnitRed = Inl RecursionError
   \<and> sexpr_of broken_dump_world Axiom_6_UnitRed = Inl (Z3Exception ''invalid usage'')
   \<and> returned (check broken_dump_world [Axiom_5_Refl] [Axiom_6_UnitRed, Axiom_5_Refl] None)
       = Inl (Z3Exception ''invalid usage'')
   \<and> z3_calls (effects_of (check broken_dump_world [Axiom_5_Refl] [Axiom_6_UnitRed, Axiom_5_Refl] None))
       = [Solver_new]"
  by code_simp

text \<open>
  C8, amended: a conclusion whose pretty-printing raises an exception derived from
  \<open>Exception\<close> is printed as its S-expression, and if the S-expression dump raises
  \<open>AttributeError\<close>, as a fixed placeholder text. When every conclusion prints in one
  of these ways (\<open>printable\<close>) and the timeout converts to a float for the header,
  \<open>check\<close> returns with one result per conclusion.
\<close>

theorem display_failure_recovered:
  assumes "\<forall>c \<in> set conclusions. printable W c"
    and "\<bar>case timeout_arg of None \<Rightarrow> 1000 | Some ms \<Rightarrow> ms\<bar> < 2 ^ 1024 - 2 ^ 970"
  shows "(\<exists>rs eff. check W assumptions conclusions timeout_arg = Inr (rs, eff)
                   \<and> length rs = length conclusions)
    \<and> (\<forall>c \<in> set conclusions.
          print_conclusion W c eff0 =
            Inr (print [Txt (''  '' @ (case str_of W c of
                                        Inr s \<Rightarrow> s
                                      | Inl ex \<Rightarrow> (case sexpr_of W c of
                                                      Inr s \<Rightarrow> s
                                                    | Inl ex' \<Rightarrow> ''[Could not format conclusion]'')))] eff0))"
proof -
  from assms(2) have "fits_float (timeout_of timeout_arg)"
    by (simp add: fits_float_def timeout_of_def)
  from check_returns [OF assms(1) this] obtain rs eff where
    run: "check W assumptions conclusions timeout_arg = Inr (rs, eff)"
    by blast
  from check_Inr(1) [OF run] have "length rs = length conclusions"
    by simp
  with run assms(1) print_conclusion_printable show ?thesis
    by blast
qed

theorem display_failure_recovered_witness:
  "printable example_world Axiom_5_Refl
   \<and> printable example_world Axiom_6_UnitRed
   \<and> printable example_world Axiom_13_UpperDiv
   \<and> \<bar>case None :: int option of None \<Rightarrow> 1000 | Some ms \<Rightarrow> ms\<bar> < 2 ^ 1024 - 2 ^ 970
   \<and> str_of example_world Axiom_6_UnitRed = Inl RecursionError
   \<and> str_of example_world Axiom_13_UpperDiv = Inl RecursionError
   \<and> sexpr_of example_world Axiom_13_UpperDiv = Inl AttributeError
   \<and> (\<exists>rs eff. check example_world [Axiom_5_Refl] [Axiom_5_Refl, Axiom_6_UnitRed, Axiom_13_UpperDiv] None
                  = Inr (rs, eff)
                  \<and> length rs = length [Axiom_5_Refl, Axiom_6_UnitRed, Axiom_13_UpperDiv])
   \<and> print_conclusion example_world Axiom_6_UnitRed no_effects
       = Inr (print [Txt ''  (forall ((x U)) (= (f e x) x))''] no_effects)
   \<and> print_conclusion example_world Axiom_13_UpperDiv no_effects
       = Inr (print [Txt ''  [Could not format conclusion]''] no_effects)"
proof -
  have pr: "\<forall>c \<in> set [Axiom_5_Refl, Axiom_6_UnitRed, Axiom_13_UpperDiv]. printable example_world c"
    by (simp add: printable_def example_world_def Axiom_5_Refl_def Axiom_6_UnitRed_def
                  Axiom_13_UpperDiv_def f_def m_def e_def x_def)
  have shown: "str_of example_world Axiom_6_UnitRed = Inl RecursionError"
    "str_of example_world Axiom_13_UpperDiv = Inl RecursionError"
    "sexpr_of example_world Axiom_13_UpperDiv = Inl AttributeError"
    "sexpr_of example_world Axiom_6_UnitRed = Inr ''(forall ((x U)) (= (f e x) x))''"
    by (simp_all add: example_world_def Axiom_5_Refl_def Axiom_6_UnitRed_def Axiom_13_UpperDiv_def
                      f_def m_def e_def x_def)
  have small: "\<bar>case None :: int option of None \<Rightarrow> 1000 | Some ms \<Rightarrow> ms\<bar> < 2 ^ 1024 - 2 ^ 970"
    by simp
  from display_failure_recovered [OF pr small, of "[Axiom_5_Refl]" no_effects] pr shown small
  show ?thesis by simp
qed

text \<open>
  C9: a call without the timeout argument is a call with 1000 milliseconds: the fourth
  entry of the console reports the float \<open>1000 / 1000.0\<close>, that is 1.0 seconds, and
  every session that is decided has its timeout parameter set to 1000.
\<close>

theorem check_default_timeout:
  "check W assumptions conclusions None = check W assumptions conclusions (Some 1000)
   \<and> console (effects_of (check W assumptions conclusions None)) ! 3
       = [Txt ''Timeout per check: '', Repr_float 1, Txt '' seconds'']
   \<and> (\<forall>s. Solver_check s \<in> set (z3_calls (effects_of (check W assumptions conclusions None)))
          \<longrightarrow> params s = [(''timeout'', 1000)])"
proof -
  have same: "check W assumptions conclusions None = check W assumptions conclusions (Some 1000)"
    by (simp add: check_def)
  have hd3: "header assumptions (timeout_of None) ! 3
       = [Txt ''Timeout per check: '', Repr_float 1, Txt '' seconds'']"
    unfolding header_def timeout_of_def by code_simp
  have lookup: "console eff ! 3 = header assumptions (timeout_of None) ! 3"
    if "take 5 (console eff) = header assumptions (timeout_of None)" for eff :: effects
  proof -
    have "take 5 (console eff) ! 3 = console eff ! 3" by simp
    with that show ?thesis by simp
  qed
  show ?thesis
  proof (cases "check W assumptions conclusions None" rule: effects_of_cases)
    case (Raised ex eff)
    from check_Inl(1) [OF Raised(1) default_fits_float] obtain pre :: "(nat \<times> formula) list" where
      "z3_calls eff = concat (map (\<lambda>ic. [Solver_new, Solver_check (session (timeout_of None) assumptions (snd ic))]) pre)
           @ [Solver_new]"
      by blast
    then have "\<forall>s. Solver_check s \<in> set (z3_calls eff) \<longrightarrow> params s = [(''timeout'', 1000)]"
      by (auto simp: session_def timeout_of_def)
    with lookup [OF check_Inl(3) [OF Raised(1) default_fits_float]] hd3 same Raised(2) show ?thesis
      by simp
  next
    case (Returned rs eff)
    from check_Inr(2) [OF Returned(1)]
    have "\<forall>s. Solver_check s \<in> set (z3_calls eff) \<longrightarrow> params s = [(''timeout'', 1000)]"
      by (auto simp: session_def timeout_of_def)
    with lookup [OF check_Inr(4) [OF Returned(1)]] hd3 same Returned(2) show ?thesis
      by simp
  qed
qed

lemma example_calls:
  "z3_calls (effects_of (check example_world [Axiom_5_Refl] [Axiom_6_UnitRed] None))
     = [Solver_new, Solver_check \<lparr>params = [(''timeout'', 1000)],
                                  assertions = [Axiom_5_Refl, Not Axiom_6_UnitRed]\<rparr>]"
  by code_simp

theorem check_default_timeout_witness:
  "Solver_check \<lparr>params = [(''timeout'', 1000)], assertions = [Axiom_5_Refl, Not Axiom_6_UnitRed]\<rparr>
     \<in> set (z3_calls (effects_of (check example_world [Axiom_5_Refl] [Axiom_6_UnitRed] None)))
   \<and> params \<lparr>params = [(''timeout'', 1000)], assertions = [Axiom_5_Refl, Not Axiom_6_UnitRed]\<rparr>
       = [(''timeout'', 1000)]
   \<and> console (effects_of (check example_world [Axiom_5_Refl] [Axiom_6_UnitRed] None)) ! 3
       = [Txt ''Timeout per check: '', Repr_float 1, Txt '' seconds'']"
proof -
  note dflt = check_default_timeout [of example_world "[Axiom_5_Refl]" "[Axiom_6_UnitRed]"]
  have mem: "Solver_check \<lparr>params = [(''timeout'', 1000)], assertions = [Axiom_5_Refl, Not Axiom_6_UnitRed]\<rparr>
     \<in> set (z3_calls (effects_of (check example_world [Axiom_5_Refl] [Axiom_6_UnitRed] None)))"
    by (simp add: example_calls)
  from dflt have hd3: "console (effects_of (check example_world [Axiom_5_Refl] [Axiom_6_UnitRed] None)) ! 3
       = [Txt ''Timeout per check: '', Repr_float 1, Txt '' seconds'']"
    by (elim conjE)
  from dflt mem have "params \<lparr>params = [(''timeout'', 1000)], assertions = [Axiom_5_Refl, Not Axiom_6_UnitRed]\<rparr>
       = [(''timeout'', 1000)]"
    by blast
  with mem hd3 show ?thesis
    by (intro conjI)
qed

text \<open>
  C10, as stated, fails for a timeout too large for a float: with no conclusions and a
  timeout of \<open>10^400\<close> milliseconds the call ends with \<open>OverflowError\<close> after the
  first three entries of the header and returns nothing.
\<close>

theorem check_no_conclusions_overflow:
  "check example_world [Axiom_5_Refl] [] (Some (10 ^ 400)) =
     Inl (OverflowError,
          \<lparr>console = [[Txt (replicate 70 CHR ''-'')],
                       [Txt ''Starting Z3 Checks...''],
                       [Txt ''Number of Assumptions: '', Str_int 1]],
             z3_calls = [], clock_reads = 0\<rparr>)"
proof -
  have "\<not> fits_float (timeout_of (Some (10 ^ 400)))"
    unfolding timeout_of_def by code_simp
  from check_overflow [OF this] show ?thesis
    by (simp add: dashes_def)
qed

text \<open>
  C10, amended: with no conclusions and a timeout below \<open>2^1024 - 2^970\<close> in absolute
  value \<open>check\<close> returns the empty list; the console holds the five entries of the
  header, with the timeout in seconds as the float quotient of line 36, and the three
  of the completion banner; no session is opened, no decision is asked for and the
  clock is not read.
\<close>

theorem check_no_conclusions:
  assumes "\<bar>case timeout_arg of None \<Rightarrow> 1000 | Some ms \<Rightarrow> ms\<bar> < 2 ^ 1024 - 2 ^ 970"
  shows "check W assumptions [] timeout_arg =
     Inr ([], \<lparr>console =
                 [[Txt (replicate 70 CHR ''-'')],
                  [Txt ''Starting Z3 Checks...''],
                  [Txt ''Number of Assumptions: '', Str_int (int (length assumptions))],
                  [Txt ''Timeout per check: '',
                   Repr_float (float_div (nearest_double
                      (of_int (case timeout_arg of None \<Rightarrow> 1000 | Some ms \<Rightarrow> ms))) 1000),
                   Txt '' seconds''],
                  [Txt (replicate 70 CHR ''-'')],
                  [Txt (replicate 70 CHR ''-'')],
                  [Txt ''Checks Complete.''],
                  [Txt (replicate 70 CHR ''-'')]],
               z3_calls = [], clock_reads = 0\<rparr>)"
proof -
  from assms have "fits_float (timeout_of timeout_arg)"
    by (simp add: fits_float_def timeout_of_def)
  then show ?thesis
    by (simp add: check_unfold header_def dashes_def timeout_of_def enumerate_eq_zip)
qed

theorem check_no_conclusions_witness:
  "\<bar>case Some 250 of None \<Rightarrow> 1000 | Some ms \<Rightarrow> ms\<bar> < (2 ^ 1024 - 2 ^ 970 :: int)
   \<and> check example_world [Axiom_5_Refl, Axiom_6_UnitRed] [] (Some 250) =
     Inr ([], \<lparr>console =
                 [[Txt (replicate 70 CHR ''-'')],
                  [Txt ''Starting Z3 Checks...''],
                  [Txt ''Number of Assumptions: '', Str_int 2],
                  [Txt ''Timeout per check: '', Repr_float (1 / 4), Txt '' seconds''],
                  [Txt (replicate 70 CHR ''-'')],
                  [Txt (replicate 70 CHR ''-'')],
                  [Txt ''Checks Complete.''],
                  [Txt (replicate 70 CHR ''-'')]],
               z3_calls = [], clock_reads = 0\<rparr>)"
proof -
  have small: "\<bar>case Some 250 of None \<Rightarrow> 1000 | Some ms \<Rightarrow> ms\<bar> < (2 ^ 1024 - 2 ^ 970 :: int)"
    by simp
  have quarter: "float_div (nearest_double (of_int 250)) 1000 = 1 / 4"
    by code_simp
  from check_no_conclusions [OF small, of example_world "[Axiom_5_Refl, Axiom_6_UnitRed]"] small quarter
  show ?thesis by simp
qed

end
